theory Spec2Isabelle
  imports Complex_Main
begin

section \<open>Python floats\<close>

text \<open>
  Every price and amount of \<^verbatim>\<open>Bitcoin_tracker.py\<close> is a Python \<^verbatim>\<open>float\<close>, an IEEE 754
  binary64 value. A finite value is kept as the real number it denotes (\<open>Fin 0\<close> is
  \<open>+0.0\<close>), the negative zero and the three special values are constructors of their own.
  Arithmetic computes the exact real result and rounds it to the nearest double, ties to
  even, as the hardware does.
\<close>

datatype pyfloat = Fin real | NegZero | PInf | NInf | NaN

text \<open>Rounding a real to the nearest integer, ties to the even neighbour.\<close>

definition half_even :: "real \<Rightarrow> int" where
  "half_even x = (let f = \<lfloor>x\<rfloor>; d = x - of_int f in
     if d < 1 / 2 then f else if 1 / 2 < d then f + 1 else if even f then f else f + 1)"

text \<open>The number of binary digits of a natural number.\<close>

fun bitlen :: "nat \<Rightarrow> nat" where
  "bitlen n = (if n = 0 then 0 else Suc (bitlen (n div 2)))"

declare bitlen.simps [simp del]

text \<open>\<open>ilog2 q\<close> is the binary exponent of a positive \<open>q\<close>: \<open>2 powi ilog2 q \<le> q < 2 powi (ilog2 q + 1)\<close>.\<close>

definition ilog2 :: "real \<Rightarrow> int" where
  "ilog2 q = (if 1 \<le> q then int (bitlen (nat \<lfloor>q\<rfloor>)) - 1
              else - int (bitlen (nat (\<lceil>1 / q\<rceil> - 1))))"

text \<open>
  The spacing of the doubles around a positive \<open>q\<close>: 53 significant bits, and the fixed
  spacing \<open>2 powi - 1074\<close> of the subnormal numbers below \<open>2 powi - 1022\<close>.
\<close>

definition ulp :: "real \<Rightarrow> real" where
  "ulp q = 2 powi (max (ilog2 q) (- 1022) - 52)"

definition round_mag :: "real \<Rightarrow> real" where
  "round_mag q = (if q = 0 then 0 else of_int (half_even (q / ulp q)) * ulp q)"

text \<open>
  \<open>to_double z q\<close> is the double nearest to the exact result \<open>q\<close>; a magnitude that rounds
  to \<open>2 ^ 1024\<close> or more overflows to an infinity, and \<open>z\<close> is the sign bit a zero result
  gets.
\<close>

definition overflow_bound :: real where
  "overflow_bound = 2 ^ 1024"

definition to_double :: "bool \<Rightarrow> real \<Rightarrow> pyfloat" where
  "to_double z q = (let m = round_mag \<bar>q\<bar> in
     if overflow_bound \<le> m then (if q < 0 then NInf else PInf)
     else if m = 0 then (if z then NegZero else Fin 0)
     else Fin (if q < 0 then - m else m))"

fun fval :: "pyfloat \<Rightarrow> real" where
  "fval (Fin q) = q"
| "fval _ = 0"

fun is_finite :: "pyfloat \<Rightarrow> bool" where
  "is_finite (Fin q) = True"
| "is_finite NegZero = True"
| "is_finite _ = False"

fun sign_bit :: "pyfloat \<Rightarrow> bool" where
  "sign_bit (Fin q) = (q < 0)"
| "sign_bit NegZero = True"
| "sign_bit NInf = True"
| "sign_bit _ = False"

fun is_zero :: "pyfloat \<Rightarrow> bool" where
  "is_zero (Fin q) = (q = 0)"
| "is_zero NegZero = True"
| "is_zero _ = False"


definition inf_of :: "bool \<Rightarrow> pyfloat" where
  "inf_of s = (if s then NInf else PInf)"

text \<open>\<^verbatim>\<open>a + b\<close>: an exact zero sum is \<open>-0.0\<close> only when both operands are.\<close>

definition fadd :: "pyfloat \<Rightarrow> pyfloat \<Rightarrow> pyfloat" where
  "fadd a b =
     (if a = NaN \<or> b = NaN then NaN
      else if \<not> is_finite a \<and> \<not> is_finite b then (if a = b then a else NaN)
      else if \<not> is_finite a then a
      else if \<not> is_finite b then b
      else to_double (a = NegZero \<and> b = NegZero) (fval a + fval b))"


text \<open>\<^verbatim>\<open>a * b\<close>: the sign is the exclusive or of the signs; infinity times zero is NaN.\<close>

definition fmul :: "pyfloat \<Rightarrow> pyfloat \<Rightarrow> pyfloat" where
  "fmul a b =
     (if a = NaN \<or> b = NaN then NaN
      else if \<not> is_finite a \<or> \<not> is_finite b then
        (if is_zero a \<or> is_zero b then NaN else inf_of (sign_bit a \<noteq> sign_bit b))
      else to_double (sign_bit a \<noteq> sign_bit b) (fval a * fval b))"

text \<open>
  The quotient of \<^verbatim>\<open>a / b\<close> for a divisor that is not zero; \<open>py_truediv\<close> below raises
  for a zero divisor, as Python does.
\<close>

definition fdiv :: "pyfloat \<Rightarrow> pyfloat \<Rightarrow> pyfloat" where
  "fdiv a b =
     (if a = NaN \<or> b = NaN then NaN
      else if \<not> is_finite a then
        (if \<not> is_finite b then NaN else inf_of (sign_bit a \<noteq> sign_bit b))
      else if \<not> is_finite b then (if sign_bit a \<noteq> sign_bit b then NegZero else Fin 0)
      else to_double (sign_bit a \<noteq> sign_bit b) (fval a / fval b))"

text \<open>Comparisons: every comparison with NaN is false, and the two zeros are equal.\<close>

fun flt :: "pyfloat \<Rightarrow> pyfloat \<Rightarrow> bool" where
  "flt NaN b = False"
| "flt a NaN = False"
| "flt PInf b = False"
| "flt a NInf = False"
| "flt NInf b = True"
| "flt a PInf = True"
| "flt a b = (fval a < fval b)"

definition fle :: "pyfloat \<Rightarrow> pyfloat \<Rightarrow> bool" where
  "fle a b = (a \<noteq> NaN \<and> b \<noteq> NaN \<and> \<not> flt b a)"

text \<open>\<^verbatim>\<open>bool(x)\<close> of a float: false for the two zeros only (NaN is true).\<close>

definition float_truthy :: "pyfloat \<Rightarrow> bool" where
  "float_truthy x = (\<not> is_zero x)"


section \<open>Exceptions\<close>

text \<open>
  The exception classes the modelled code can meet. \<open>RequestException\<close> stands for
  every class of \<^verbatim>\<open>requests.exceptions\<close> but the JSON one (connection errors, timeouts,
  the \<^verbatim>\<open>HTTPError\<close> of \<^verbatim>\<open>raise_for_status\<close>). \<open>RequestsJSONDecodeError\<close> is what
  \<^verbatim>\<open>response.json()\<close> raises in requests 2.27 and later: a subclass of both
  \<^verbatim>\<open>RequestException\<close> and \<^verbatim>\<open>json.JSONDecodeError\<close>; \<open>JSONDecodeError\<close> is the plain
  \<^verbatim>\<open>json.JSONDecodeError\<close> of earlier versions, a \<^verbatim>\<open>ValueError\<close>.
\<close>

datatype exn =
    RequestException | RequestsJSONDecodeError | JSONDecodeError
  | KeyError | ValueError | IndexError | TypeError | AttributeError
  | OverflowError | ZeroDivisionError | OSError | EOFError

fun is_RequestException :: "exn \<Rightarrow> bool" where
  "is_RequestException RequestException = True"
| "is_RequestException RequestsJSONDecodeError = True"
| "is_RequestException _ = False"

fun is_ValueError :: "exn \<Rightarrow> bool" where
  "is_ValueError ValueError = True"
| "is_ValueError JSONDecodeError = True"
| "is_ValueError RequestsJSONDecodeError = True"
| "is_ValueError _ = False"

text \<open>
  Every class above derives from \<^verbatim>\<open>Exception\<close>, so \<^verbatim>\<open>except Exception\<close> and a bare
  \<^verbatim>\<open>except\<close> catch all of them (\<^verbatim>\<open>KeyboardInterrupt\<close> and \<^verbatim>\<open>SystemExit\<close> are outside the
  model).
\<close>

fun is_Exception :: "exn \<Rightarrow> bool" where
  "is_Exception _ = True"

definition bindE :: "exn + 'a \<Rightarrow> ('a \<Rightarrow> exn + 'b) \<Rightarrow> exn + 'b" where
  "bindE m f = (case m of Inl e \<Rightarrow> Inl e | Inr x \<Rightarrow> f x)"

text \<open>\<^verbatim>\<open>a / b\<close> on floats raises for a zero divisor.\<close>

definition py_truediv :: "pyfloat \<Rightarrow> pyfloat \<Rightarrow> exn + pyfloat" where
  "py_truediv a b = (if is_zero b then Inl ZeroDivisionError else Inr (fdiv a b))"


text \<open>\<^verbatim>\<open>float(n)\<close> of an integer: correctly rounded, \<^verbatim>\<open>OverflowError\<close> beyond the doubles.\<close>

definition int_to_float :: "int \<Rightarrow> exn + pyfloat" where
  "int_to_float n = (let x = to_double False (of_int n) in
     if is_finite x then Inr x else Inl OverflowError)"

section \<open>Text to float and back\<close>

text \<open>
  \<^verbatim>\<open>float(s)\<close> of a string, as CPython reads it: underscores are allowed between digits
  only, white space is stripped at both ends, then the text is \<^verbatim>\<open>inf\<close>, \<^verbatim>\<open>infinity\<close> or
  \<^verbatim>\<open>nan\<close> (any case, with an optional sign), or a decimal numeral with an optional
  fraction and exponent; the value is the double nearest to the decimal. \<open>None\<close> stands
  for \<^verbatim>\<open>ValueError\<close>. Strings are over the code points 0 to 255.
\<close>

definition is_digit :: "char \<Rightarrow> bool" where
  "is_digit c = (c \<in> set ''0123456789'')"

definition digit_val :: "char \<Rightarrow> nat" where
  "digit_val c = of_char c - 48"

definition digits_val :: "string \<Rightarrow> nat" where
  "digits_val ds = foldl (\<lambda>n c. 10 * n + digit_val c) 0 ds"

definition is_space :: "char \<Rightarrow> bool" where
  "is_space c = (c \<in> set [CHR 0x09, CHR 0x0A, CHR 0x0B, CHR 0x0C, CHR 0x0D, CHR '' '',
                          CHR 0x85, CHR 0xA0])"

definition strip :: "string \<Rightarrow> string" where
  "strip s = rev (dropWhile is_space (rev (dropWhile is_space s)))"

fun underscores_ok :: "char \<Rightarrow> string \<Rightarrow> bool" where
  "underscores_ok prev [] = (prev \<noteq> CHR ''_'')"
| "underscores_ok prev (c # cs) =
     ((if c = CHR ''_'' then is_digit prev else (prev \<noteq> CHR ''_'' \<or> is_digit c))
      \<and> underscores_ok c cs)"

definition strip_sign :: "string \<Rightarrow> bool \<times> string" where
  "strip_sign s = (case s of [] \<Rightarrow> (False, [])
     | c # t \<Rightarrow> if c = CHR ''-'' then (True, t) else if c = CHR ''+'' then (False, t)
                else (False, s))"

text \<open>
  Lower case. Only the letters A to Z are mapped: the other code points below 256 stay
  outside the ASCII letters under \<^verbatim>\<open>str.lower()\<close>, and the code compares the result with
  ASCII words only.
\<close>

definition lower_char :: "char \<Rightarrow> char" where
  "lower_char c = (case map_of (zip ''ABCDEFGHIJKLMNOPQRSTUVWXYZ'' ''abcdefghijklmnopqrstuvwxyz'') c of
     None \<Rightarrow> c | Some l \<Rightarrow> l)"

definition lower :: "string \<Rightarrow> string" where
  "lower s = map lower_char s"

definition parse_inf_nan :: "string \<Rightarrow> pyfloat option" where
  "parse_inf_nan s = (let (neg, t) = strip_sign s; l = lower t in
     if l = ''inf'' \<or> l = ''infinity'' then Some (inf_of neg)
     else if l = ''nan'' then Some NaN else None)"

definition parse_exponent :: "string \<Rightarrow> int option" where
  "parse_exponent s = (case s of [] \<Rightarrow> Some 0
     | c # t \<Rightarrow>
        if c = CHR ''e'' \<or> c = CHR ''E'' then
          (let (neg, ds) = strip_sign t in
           if ds \<noteq> [] \<and> list_all is_digit ds
           then Some (if neg then - int (digits_val ds) else int (digits_val ds))
           else None)
        else None)"

definition parse_decimal :: "string \<Rightarrow> pyfloat option" where
  "parse_decimal s = (let (neg, t) = strip_sign s;
        ip = takeWhile is_digit t;
        r = dropWhile is_digit t;
        dot = (r \<noteq> [] \<and> hd r = CHR ''.'');
        fp = (if dot then takeWhile is_digit (tl r) else []);
        rest = (if dot then dropWhile is_digit (tl r) else r)
      in if ip = [] \<and> fp = [] then None
         else case parse_exponent rest of
                None \<Rightarrow> None
              | Some e \<Rightarrow>
                  let q = of_nat (digits_val (ip @ fp)) * 10 powi (e - int (length fp))
                  in Some (to_double neg (if neg then - q else q)))"

definition float_of_string :: "string \<Rightarrow> pyfloat option" where
  "float_of_string s =
     (if CHR ''_'' \<in> set s \<and> \<not> underscores_ok (CHR 0x00) s then None
      else let t = strip (filter (\<lambda>c. c \<noteq> CHR ''_'') s) in
        case parse_inf_nan t of Some x \<Rightarrow> Some x | None \<Rightarrow> parse_decimal t)"

text \<open>
  The format specifications \<^verbatim>\<open>,.2f\<close>, \<^verbatim>\<open>+,.2f\<close>, \<^verbatim>\<open>+.2f\<close> and \<^verbatim>\<open>.8f\<close>: the exact value of
  the double rounded to the given number of decimals, ties to even, with an optional
  plus sign and an optional comma between groups of three digits.
\<close>

definition digit_char :: "nat \<Rightarrow> char" where
  "digit_char d = ''0123456789'' ! d"

fun digits_of :: "nat \<Rightarrow> string" where
  "digits_of n = (if n < 10 then [digit_char n] else digits_of (n div 10) @ [digit_char (n mod 10)])"

declare digits_of.simps [simp del]

fun group3 :: "string \<Rightarrow> string" where
  "group3 s = (if length s \<le> 3 then s
               else group3 (take (length s - 3) s) @ '','' @ drop (length s - 3) s)"

declare group3.simps [simp del]

definition pad_zeros :: "nat \<Rightarrow> string \<Rightarrow> string" where
  "pad_zeros n s = replicate (n - length s) (CHR ''0'') @ s"

definition format_f :: "bool \<Rightarrow> bool \<Rightarrow> nat \<Rightarrow> pyfloat \<Rightarrow> string" where
  "format_f with_plus comma prec x =
     (let sgn = (if sign_bit x then ''-'' else if with_plus then ''+'' else '''') in
      case x of
        NaN \<Rightarrow> sgn @ ''nan''
      | PInf \<Rightarrow> sgn @ ''inf''
      | NInf \<Rightarrow> sgn @ ''inf''
      | _ \<Rightarrow>
          let n = nat (half_even (\<bar>fval x\<bar> * 10 ^ prec));
              ip = digits_of (n div 10 ^ prec);
              fp = pad_zeros prec (digits_of (n mod 10 ^ prec))
          in sgn @ (if comma then group3 ip else ip) @ (if prec = 0 then '''' else ''.'' @ fp))"

section \<open>Decoded JSON and the Python operations on it\<close>

text \<open>
  What \<^verbatim>\<open>response.json()\<close> returns. An object is the list of its items in insertion
  order, with distinct keys.
\<close>

datatype json =
    JNull | JBool bool | JInt int | JFloat pyfloat | JStr string
  | JList "json list" | JDict "(string \<times> json) list"


fun contains_sub :: "string \<Rightarrow> string \<Rightarrow> bool" where
  "contains_sub k [] = (k = [])"
| "contains_sub k (c # cs) = (take (length k) (c # cs) = k \<or> contains_sub k cs)"

text \<open>\<^verbatim>\<open>k in data\<close> for a string \<open>k\<close>: a key of a dict, an element of a list, a substring.\<close>

fun py_contains :: "string \<Rightarrow> json \<Rightarrow> exn + bool" where
  "py_contains k (JDict kv) = Inr (k \<in> set (map fst kv))"
| "py_contains k (JList xs) = Inr (JStr k \<in> set xs)"
| "py_contains k (JStr s) = Inr (contains_sub k s)"
| "py_contains k _ = Inl TypeError"

text \<open>\<^verbatim>\<open>data[k]\<close> for a string \<open>k\<close>.\<close>

fun py_getitem :: "json \<Rightarrow> string \<Rightarrow> exn + json" where
  "py_getitem (JDict kv) k = (case map_of kv k of None \<Rightarrow> Inl KeyError | Some v \<Rightarrow> Inr v)"
| "py_getitem _ k = Inl TypeError"


fun py_len :: "json \<Rightarrow> exn + nat" where
  "py_len (JList xs) = Inr (length xs)"
| "py_len (JStr s) = Inr (length s)"
| "py_len (JDict kv) = Inr (length kv)"
| "py_len _ = Inl TypeError"

text \<open>
  \<^verbatim>\<open>candle[i]\<close> for an index \<open>i \<ge> 0\<close>. The keys of a decoded object are strings, so an
  integer is never one of them.
\<close>

fun py_index :: "json \<Rightarrow> nat \<Rightarrow> exn + json" where
  "py_index (JList xs) i = (if i < length xs then Inr (xs ! i) else Inl IndexError)"
| "py_index (JStr s) i = (if i < length s then Inr (JStr [s ! i]) else Inl IndexError)"
| "py_index (JDict kv) i = Inl KeyError"
| "py_index _ i = Inl TypeError"

text \<open>The elements a \<^verbatim>\<open>for\<close> loop visits: of a list, the keys of a dict, the characters of a string.\<close>

fun py_iter :: "json \<Rightarrow> exn + json list" where
  "py_iter (JList xs) = Inr xs"
| "py_iter (JDict kv) = Inr (map (\<lambda>(k, v). JStr k) kv)"
| "py_iter (JStr s) = Inr (map (\<lambda>c. JStr [c]) s)"
| "py_iter _ = Inl TypeError"

definition float_of_str :: "string \<Rightarrow> exn + pyfloat" where
  "float_of_str s = (case float_of_string s of None \<Rightarrow> Inl ValueError | Some x \<Rightarrow> Inr x)"

text \<open>\<^verbatim>\<open>float(v)\<close>.\<close>

fun py_float :: "json \<Rightarrow> exn + pyfloat" where
  "py_float (JStr s) = float_of_str s"
| "py_float (JInt n) = int_to_float n"
| "py_float (JFloat x) = Inr x"
| "py_float (JBool b) = Inr (if b then Fin 1 else Fin 0)"
| "py_float _ = Inl TypeError"



section \<open>The world: network, clock, terminal\<close>

datatype request =
    TickerPrice string
  | Ticker24hr string
  | Klines string string int int int

text \<open>
  A printed line: \<open>Text\<close> is a line of fixed words, \<open>ErrorText\<close> a message that ends with
  the exception, \<open>Labeled\<close> a label with one formatted value, \<open>Change\<close> the change line with
  the formatted variation and percentage, \<open>ChartBar\<close> a chart row with its time, the
  number of block characters of its bar and the formatted price, \<open>Prompt\<close> the text
  \<^verbatim>\<open>input\<close> writes. Emoji, colour codes and blank lines are left out.
\<close>

datatype line =
    Text string
  | ErrorText string exn
  | Labeled string string
  | Change string string string
  | ChartBar string nat string
  | Prompt string

text \<open>
  \<open>net w n req\<close> is what the \<open>n\<close>-th HTTP call gives if it sends \<open>req\<close>: the decoded
  body, or the exception that \<^verbatim>\<open>requests.get\<close>, \<^verbatim>\<open>raise_for_status\<close> or \<^verbatim>\<open>json\<close> raises.
  \<open>clock w n\<close> is \<^verbatim>\<open>int(time.time() * 1000)\<close> at that moment, \<open>strftime_hm w t\<close> is
  \<^verbatim>\<open>datetime.fromtimestamp(t/1000).strftime('%H:%M')\<close> in the local time zone. \<open>sent\<close> logs
  the requests made, \<open>stdin\<close> holds the lines the user will type, \<open>out\<close> the lines printed.
\<close>

record world =
  net :: "nat \<Rightarrow> request \<Rightarrow> exn + json"
  clock :: "nat \<Rightarrow> int"
  strftime_hm :: "json \<Rightarrow> exn + string"
  calls :: nat
  sent :: "request list"
  stdin :: "string list"
  out :: "line list"

type_synonym 'a io = "world \<Rightarrow> (exn + 'a) \<times> world"

definition ret :: "'a \<Rightarrow> 'a io" where
  "ret x w = (Inr x, w)"

definition lift :: "exn + 'a \<Rightarrow> 'a io" where
  "lift r w = (r, w)"

definition bindIO :: "'a io \<Rightarrow> ('a \<Rightarrow> 'b io) \<Rightarrow> 'b io" where
  "bindIO m f w = (case m w of (Inl e, w') \<Rightarrow> (Inl e, w') | (Inr x, w') \<Rightarrow> f x w')"

definition thenIO :: "'a io \<Rightarrow> 'b io \<Rightarrow> 'b io" where
  "thenIO m k = bindIO m (\<lambda>_. k)"

text \<open>\<^verbatim>\<open>try: m except: h\<close>; a handler re-raises what its clauses do not match.\<close>

definition try_except :: "'a io \<Rightarrow> (exn \<Rightarrow> 'a io) \<Rightarrow> 'a io" where
  "try_except m h w = (case m w of (Inl e, w') \<Rightarrow> h e w' | (Inr x, w') \<Rightarrow> (Inr x, w'))"

definition print_all :: "line list \<Rightarrow> unit io" where
  "print_all ls w = (Inr (), w\<lparr>out := out w @ ls\<rparr>)"

definition print_line :: "line \<Rightarrow> unit io" where
  "print_line l = print_all [l]"

text \<open>\<^verbatim>\<open>input(p)\<close> writes the prompt and reads a line; at the end of input it raises.\<close>

definition input_line :: "string \<Rightarrow> string io" where
  "input_line p w = (case stdin w of
       [] \<Rightarrow> (Inl EOFError, w\<lparr>out := out w @ [Prompt p]\<rparr>)
     | s # ss \<Rightarrow> (Inr s, w\<lparr>stdin := ss, out := out w @ [Prompt p]\<rparr>))"

text \<open>\<^verbatim>\<open>requests.get\<close>, \<^verbatim>\<open>raise_for_status\<close> and \<^verbatim>\<open>json\<close> in one step.\<close>

definition http_get_json :: "request \<Rightarrow> json io" where
  "http_get_json req w =
     (net w (calls w) req, w\<lparr>calls := Suc (calls w), sent := sent w @ [req]\<rparr>)"

definition symbol :: string where
  "symbol = ''BTCUSDT''"

definition rule :: "nat \<Rightarrow> char \<Rightarrow> line" where
  "rule n c = Text (replicate n c)"

section \<open>The price service\<close>

text \<open>The \<^verbatim>\<open>try\<close> block of \<^verbatim>\<open>get_current_price\<close> after the response is decoded.\<close>

definition price_of_data :: "json \<Rightarrow> exn + pyfloat option" where
  "price_of_data data =
     bindE (py_contains ''price'' data) (\<lambda>present.
       if present then
         bindE (py_getitem data ''price'') (\<lambda>v.
         bindE (py_float v) (\<lambda>x. Inr (Some x)))
       else Inr None)"

text \<open>The \<^verbatim>\<open>try\<close> block of \<^verbatim>\<open>_get_alternative_price\<close> after the response is decoded.\<close>

definition alternative_of_data :: "json \<Rightarrow> exn + pyfloat option" where
  "alternative_of_data data =
     bindE (py_contains ''lastPrice'' data) (\<lambda>has_last.
       if has_last then
         bindE (py_getitem data ''lastPrice'') (\<lambda>v.
         bindE (py_float v) (\<lambda>x. Inr (Some x)))
       else
         bindE (py_contains ''bidPrice'' data) (\<lambda>has_bid.
         bindE (if has_bid then py_contains ''askPrice'' data else Inr False) (\<lambda>has_both.
           if has_both then
             bindE (py_getitem data ''bidPrice'') (\<lambda>b.
             bindE (py_float b) (\<lambda>bid.
             bindE (py_getitem data ''askPrice'') (\<lambda>a.
             bindE (py_float a) (\<lambda>ask.
             bindE (py_truediv (fadd bid ask) (Fin 2)) (\<lambda>mid. Inr (Some mid))))))
           else Inr None)))"

definition get_alternative_price :: "pyfloat option io" where
  "get_alternative_price =
     try_except
       (bindIO (http_get_json (Ticker24hr symbol)) (\<lambda>data. lift (alternative_of_data data)))
       (\<lambda>e. ret None)"

definition get_current_price :: "pyfloat option io" where
  "get_current_price =
     try_except
       (bindIO (http_get_json (TickerPrice symbol)) (\<lambda>data. lift (price_of_data data)))
       (\<lambda>e. if is_RequestException e then
               thenIO (print_line (ErrorText ''Connection error to Binance'' e))
                 get_alternative_price
             else if e = KeyError \<or> is_ValueError e then
               thenIO (print_line (ErrorText ''Error processing data'' e)) (ret None)
             else if is_Exception e then
               thenIO (print_line (ErrorText ''Error getting current price'' e)) (ret None)
             else lift (Inl e))"

text \<open>
  The loop of \<^verbatim>\<open>get_historical_data\<close> over the elements of the response: an element of
  length 6 or more gives the pair of its entry 0 and the float of its entry 4, a shorter
  one is skipped.
\<close>

fun candles :: "json list \<Rightarrow> (json \<times> pyfloat) list \<Rightarrow> exn + (json \<times> pyfloat) list" where
  "candles [] historical = Inr historical"
| "candles (candle # rest) historical =
     bindE (py_len candle) (\<lambda>n.
       if 6 \<le> n then
         bindE (py_index candle 0) (\<lambda>timestamp.
         bindE (py_index candle 4) (\<lambda>c.
         bindE (py_float c) (\<lambda>price.
         candles rest (historical @ [(timestamp, price)]))))
       else candles rest historical)"

definition historical_of_data :: "json \<Rightarrow> exn + (json \<times> pyfloat) list option" where
  "historical_of_data data =
     bindE (py_iter data) (\<lambda>elements.
     bindE (candles elements []) (\<lambda>historical.
     Inr (if historical \<noteq> [] then Some historical else None)))"

definition get_historical_data :: "int \<Rightarrow> (json \<times> pyfloat) list option io" where
  "get_historical_data days w =
     (let end_time = clock w (calls w);
          start_time = end_time - days * 24 * 60 * 60 * 1000;
          (interval, limit) =
            (if days \<le> 1 then (''15m'', 96)
             else if days \<le> 7 then (''1h'', 168)
             else if days \<le> 30 then (''4h'', 180)
             else (''1d'', min days 1000))
      in try_except
           (bindIO (http_get_json (Klines symbol interval start_time end_time limit))
              (\<lambda>data. lift (historical_of_data data)))
           (\<lambda>e. if is_RequestException e then
                   thenIO (print_line (ErrorText ''Historical data connection error to Binance'' e))
                     (ret None)
                 else if e = KeyError \<or> is_ValueError e \<or> e = IndexError then
                   thenIO (print_line (ErrorText ''Error processing historical data'' e)) (ret None)
                 else if is_Exception e then
                   thenIO (print_line (ErrorText ''Error getting historical data'' e)) (ret None)
                 else lift (Inl e))
           w)"


section \<open>The presenter\<close>

text \<open>\<^verbatim>\<open>if price:\<close> for what \<^verbatim>\<open>get_current_price\<close> returns.\<close>

fun price_truthy :: "pyfloat option \<Rightarrow> bool" where
  "price_truthy None = False"
| "price_truthy (Some x) = float_truthy x"











text \<open>The \<^verbatim>\<open>while True\<close> loop of \<^verbatim>\<open>convert_bitcoin_to_usd\<close> that reads the amount.\<close>

function amount_loop :: "pyfloat io" where
  "amount_loop w =
     (case input_line ''Enter amount of Bitcoin: '' w of
        (Inl e, w1) \<Rightarrow>
          if is_ValueError e
          then amount_loop (snd (print_line (Text ''Error: Enter a valid number'') w1))
          else (Inl e, w1)
      | (Inr amount, w1) \<Rightarrow>
          (case float_of_string amount of
             None \<Rightarrow> amount_loop (snd (print_line (Text ''Error: Enter a valid number'') w1))
           | Some amount_btc \<Rightarrow>
               if fle amount_btc (Fin 0)
               then amount_loop
                      (snd (print_line (Text ''Error: Amount must be greater than 0'') w1))
               else (Inr amount_btc, w1)))"
  by pat_completeness auto
termination
  by (relation "measure (\<lambda>w. length (stdin w))")
     (auto simp: input_line_def print_line_def print_all_def split: list.splits)

text \<open>The price the converter works with: the current one, or what the user chooses.\<close>

definition converter_price :: "pyfloat option \<Rightarrow> pyfloat io" where
  "converter_price price =
     (if \<not> price_truthy price then
        thenIO (print_all [Text ''Could not get current price from Binance.'',
                           Text ''Service may be temporarily unavailable.''])
       (bindIO (input_line ''Use reference price of $50,000? (y/n): '') (\<lambda>answer.
          if lower answer = ''y'' then
            thenIO (print_line (Labeled ''Using reference price'' (format_f False True 2 (Fin 50000))))
              (ret (Fin 50000))
          else
            try_except
              (bindIO (input_line ''Enter price manually: $'') (\<lambda>s. lift (float_of_str s)))
              (\<lambda>e. if is_ValueError e then
                      thenIO (print_line (Text ''Invalid price. Using $50,000 as default.''))
                        (ret (Fin 50000))
                    else lift (Inl e))))
      else
        thenIO (print_all [Labeled ''Current price: 1 BTC'' (format_f False True 2 (the price)),
                           Text ''Source: Binance API''])
          (ret (the price)))"

definition converter_banner :: "line list" where
  "converter_banner =
     [rule 50 (CHR ''=''), Text ''BITCOIN TO USD CONVERTER (Binance)'', rule 50 (CHR ''='')]"

definition convert_bitcoin_to_usd :: "unit io" where
  "convert_bitcoin_to_usd =
     thenIO (print_all converter_banner)
    (bindIO get_current_price (\<lambda>price.
     bindIO (converter_price price) (\<lambda>price_btc.
     bindIO amount_loop (\<lambda>amount_btc.
     let result = fmul amount_btc price_btc in
     thenIO (print_all
       [rule 50 (CHR ''=''), Text ''RESULT:'', rule 50 (CHR ''=''),
        Labeled ''Bitcoin amount'' (format_f False False 8 amount_btc),
        Labeled ''Current price'' (format_f False True 2 price_btc),
        Labeled ''Total value'' (format_f False True 2 result),
        rule 50 (CHR ''='')])
    (bindIO (input_line ''Press Enter to continue...'') (\<lambda>_. ret ()))))))"

section \<open>Concrete worlds\<close>

text \<open>A world with no network: every request fails to connect, and nobody types.\<close>

definition offline :: world where
  "offline = \<lparr>net = (\<lambda>n req. Inl RequestException), clock = (\<lambda>n. 0),
     strftime_hm = (\<lambda>t. Inr ''00:00''), calls = 0, sent = [], stdin = [], out = []\<rparr>"

text \<open>The request \<^verbatim>\<open>get_historical_data\<close> sends for a day range at a given time.\<close>

definition klines_request :: "int \<Rightarrow> int \<Rightarrow> request" where
  "klines_request days end_time =
     Klines symbol
        (if days \<le> 1 then ''15m'' else if days \<le> 7 then ''1h''
         else if days \<le> 30 then ''4h'' else ''1d'')
        (end_time - days * 24 * 60 * 60 * 1000) end_time
        (if days \<le> 1 then 96 else if days \<le> 7 then 168
         else if days \<le> 30 then 180 else min days 1000)"

text \<open>The spot-price request fails to connect; the 24h ticker answers with a bid and an ask only.\<close>

definition bid_ask_world :: world where
  "bid_ask_world = offline\<lparr>net := (\<lambda>n req.
      if n = 1 then Inr (JDict [(''bidPrice'', JStr ''1''), (''askPrice'', JStr ''2'')])
      else Inl RequestException)\<rparr>"

text \<open>No network; the user declines the reference price and types a price and an amount.\<close>

definition manual_world :: world where
  "manual_world = offline\<lparr>stdin := [''n'', ''60000'', ''2'', '''']\<rparr>"

section \<open>What the spec says the fallback price is\<close>

definition float_or_none :: "json \<Rightarrow> pyfloat option" where
  "float_or_none v = (case py_float v of Inl e \<Rightarrow> None | Inr x \<Rightarrow> Some x)"

text \<open>
  The price derived from a 24h ticker, in the spec's words: the last price when the
  ticker has one, otherwise the midpoint of bid and ask; no value when the field that is
  used is not a number or the ticker is not an object with these fields.
\<close>

definition ticker_fallback_price :: "json \<Rightarrow> pyfloat option" where
  "ticker_fallback_price d =
     (case d of
        JDict kv \<Rightarrow>
          (case map_of kv ''lastPrice'' of
             Some v \<Rightarrow> float_or_none v
           | None \<Rightarrow>
               (case (map_of kv ''bidPrice'', map_of kv ''askPrice'') of
                  (Some b, Some a) \<Rightarrow>
                    (case (float_or_none b, float_or_none a) of
                       (Some bid, Some ask) \<Rightarrow> Some (fdiv (fadd bid ask) (Fin 2))
                     | _ \<Rightarrow> None)
                | _ \<Rightarrow> None))
      | _ \<Rightarrow> None)"

text \<open>No network; the user declines the reference price and types no number for the price.\<close>

definition invalid_world :: world where
  "invalid_world = offline\<lparr>stdin := [''n'', ''abc'', ''2'', '''']\<rparr>"

text \<open>The spot price is 65000.12345678; the user converts half a Bitcoin.\<close>

definition example_world :: world where
  "example_world = offline\<lparr>
     net := (\<lambda>n req. Inr (JDict [(''symbol'', JStr ''BTCUSDT''),
                                      (''price'', JStr ''65000.12345678'')])),
     stdin := [''0.5'', '''']\<rparr>"

text \<open>The same price; the user types \<^verbatim>\<open>nan\<close> as the amount.\<close>

definition nan_world :: world where
  "nan_world = example_world\<lparr>stdin := [''nan'', '''']\<rparr>"

section \<open>Devices of the proofs\<close>



section \<open>What the spec calls a well-formed response\<close>










text \<open>The same price; the user converts a thousand Bitcoin.\<close>

definition thousand_world :: world where
  "thousand_world = example_world\<lparr>stdin := [''1000'', '''']\<rparr>"

section \<open>What a run prints\<close>



section \<open>Worlds for the 24-hour analysis\<close>









section \<open>Running the model: basic equations\<close>

lemma ret_apply [simp]: "ret x w = (Inr x, w)"
  by (simp add: ret_def)

lemma lift_apply [simp]: "lift r w = (r, w)"
  by (simp add: lift_def)

lemma print_all_apply [simp]: "print_all ls w = (Inr (), w\<lparr>out := out w @ ls\<rparr>)"
  by (simp add: print_all_def)

lemma print_line_apply [simp]: "print_line l w = (Inr (), w\<lparr>out := out w @ [l]\<rparr>)"
  by (simp add: print_line_def)

lemma http_get_json_apply [simp]:
  "http_get_json req w =
     (net w (calls w) req, w\<lparr>calls := Suc (calls w), sent := sent w @ [req]\<rparr>)"
  by (simp add: http_get_json_def)

lemma bindIO_Inl [simp]: "m w = (Inl e, w') \<Longrightarrow> bindIO m f w = (Inl e, w')"
  by (simp add: bindIO_def)

lemma bindIO_Inr [simp]: "m w = (Inr x, w') \<Longrightarrow> bindIO m f w = f x w'"
  by (simp add: bindIO_def)

lemma thenIO_Inl [simp]: "m w = (Inl e, w') \<Longrightarrow> thenIO m k w = (Inl e, w')"
  by (simp add: thenIO_def)

lemma thenIO_Inr [simp]: "m w = (Inr x, w') \<Longrightarrow> thenIO m k w = k w'"
  by (simp add: thenIO_def)

lemma try_except_Inl [simp]: "m w = (Inl e, w') \<Longrightarrow> try_except m h w = h e w'"
  by (simp add: try_except_def)

lemma try_except_Inr [simp]: "m w = (Inr x, w') \<Longrightarrow> try_except m h w = (Inr x, w')"
  by (simp add: try_except_def)

lemma bindE_Inl [simp]: "bindE (Inl e) f = Inl e"
  by (simp add: bindE_def)

lemma bindE_Inr [simp]: "bindE (Inr x) f = f x"
  by (simp add: bindE_def)

section \<open>The historical query: interval and limit\<close>

lemma get_historical_data_unfold:
  "get_historical_data days w =
     try_except
       (bindIO (http_get_json (klines_request days (clock w (calls w))))
          (\<lambda>data. lift (historical_of_data data)))
       (\<lambda>e. if is_RequestException e then
               thenIO (print_line (ErrorText ''Historical data connection error to Binance'' e))
                 (ret None)
             else if e = KeyError \<or> is_ValueError e \<or> e = IndexError then
               thenIO (print_line (ErrorText ''Error processing historical data'' e)) (ret None)
             else if is_Exception e then
               thenIO (print_line (ErrorText ''Error getting historical data'' e)) (ret None)
             else lift (Inl e))
       w"
  by (simp add: get_historical_data_def klines_request_def Let_def)

lemma sent_get_historical_data:
  "sent (snd (get_historical_data days w)) = sent w @ [klines_request days (clock w (calls w))]"
proof (cases "net w (calls w) (klines_request days (clock w (calls w)))")
  case (Inl e)
  then show ?thesis
    by (cases e) (simp_all add: get_historical_data_unfold)
next
  case (Inr d)
  then show ?thesis
    by (cases "historical_of_data d") (auto simp add: get_historical_data_unfold)
qed

text \<open>
  Claim C5. For every positive number of days, \<^verbatim>\<open>get_historical_data\<close> sends exactly one
  request, for the klines of the pair between \<open>days\<close> days ago and now, whose interval and
  limit follow the day range: up to 1 day \<^verbatim>\<open>15m\<close> and 96, up to 7 days \<^verbatim>\<open>1h\<close> and 168, up to
  30 days \<^verbatim>\<open>4h\<close> and 180, beyond that \<^verbatim>\<open>1d\<close> and \<open>min days 1000\<close>. The limit never exceeds
  1000.
\<close>

theorem historical_request_interval_limit:
  assumes "0 < days"
  shows "\<exists>interval limit.
     sent (snd (get_historical_data days w)) =
       sent w @ [Klines symbol interval (clock w (calls w) - days * 24 * 60 * 60 * 1000)
                   (clock w (calls w)) limit]
     \<and> (days \<le> 1 \<longrightarrow> interval = ''15m'' \<and> limit = 96)
     \<and> (1 < days \<and> days \<le> 7 \<longrightarrow> interval = ''1h'' \<and> limit = 168)
     \<and> (7 < days \<and> days \<le> 30 \<longrightarrow> interval = ''4h'' \<and> limit = 180)
     \<and> (30 < days \<longrightarrow> interval = ''1d'' \<and> limit = min days 1000)
     \<and> limit \<le> 1000"
  using assms by (simp add: sent_get_historical_data klines_request_def)

theorem historical_request_interval_limit_witness:
  "(0::int) < 45 \<and>
   sent (snd (get_historical_data 45 offline)) =
     [Klines ''BTCUSDT'' ''1d'' (- 3888000000) 0 45]"
  using historical_request_interval_limit [of 45 offline]
  by (simp add: offline_def symbol_def)

section \<open>Evaluating floats, parsing and formatting on literals\<close>

lemma bitlen_0 [simp]: "bitlen 0 = 0"
  by (simp add: bitlen.simps)

lemma bitlen_pos: "0 < n \<Longrightarrow> bitlen n = Suc (bitlen (n div 2))"
  by (subst bitlen.simps) simp

lemma digits_of_small: "n < 10 \<Longrightarrow> digits_of n = [digit_char n]"
  by (subst digits_of.simps) simp

lemma digits_of_large:
  "10 \<le> n \<Longrightarrow> digits_of n = digits_of (n div 10) @ [digit_char (n mod 10)]"
  by (subst digits_of.simps) simp

lemma group3_short: "length s \<le> 3 \<Longrightarrow> group3 s = s"
  by (subst group3.simps) simp

lemma group3_long:
  "3 < length s \<Longrightarrow> group3 s = group3 (take (length s - 3) s) @ '','' @ drop (length s - 3) s"
  by (subst group3.simps) simp

lemmas float_eval = to_double_def overflow_bound_def round_mag_def ulp_def ilog2_def bitlen_pos
  half_even_def Let_def power_int_def power_one_over power_divide

lemmas parse_eval = float_of_string_def parse_decimal_def parse_exponent_def parse_inf_nan_def
  strip_sign_def strip_def is_space_def is_digit_def digits_val_def digit_val_def lower_def
  lower_char_def inf_of_def

lemmas format_eval = format_f_def half_even_def Let_def digits_of_small digits_of_large
  group3_short group3_long pad_zeros_def digit_char_def

lemma float_of_string_1: "float_of_string ''1'' = Some (Fin 1)"
  by (simp add: parse_eval float_eval)

lemma float_of_string_2: "float_of_string ''2'' = Some (Fin 2)"
  by (simp add: parse_eval float_eval)

lemma float_of_string_60000: "float_of_string ''60000'' = Some (Fin 60000)"
  by (simp add: parse_eval float_eval)

lemma float_of_string_nan: "float_of_string ''nan'' = Some NaN"
  by (simp add: parse_eval)

lemma float_of_string_inf: "float_of_string ''inf'' = Some PInf"
  by (simp add: parse_eval)

lemma float_of_string_abc: "float_of_string ''abc'' = None"
  by (simp add: parse_eval)

section \<open>The current price and its fallback\<close>

lemma in_keys_iff: "k \<in> fst ` set kv \<longleftrightarrow> map_of kv k \<noteq> None"
  by (simp add: map_of_eq_None_iff)

lemma alternative_of_data_fallback:
  "(case alternative_of_data d of Inl e \<Rightarrow> None | Inr p \<Rightarrow> p) = ticker_fallback_price d"
proof (cases d)
  case (JDict kv)
  then show ?thesis
    by (auto simp add: alternative_of_data_def ticker_fallback_price_def float_or_none_def
        in_keys_iff py_truediv_def split: option.splits sum.splits)
qed (simp_all add: alternative_of_data_def ticker_fallback_price_def)

lemma get_alternative_price_eq:
  "get_alternative_price w =
     (Inr (case net w (calls w) (Ticker24hr symbol) of
             Inl e \<Rightarrow> None | Inr d \<Rightarrow> ticker_fallback_price d),
      w\<lparr>calls := Suc (calls w), sent := sent w @ [Ticker24hr symbol]\<rparr>)"
proof (cases "net w (calls w) (Ticker24hr symbol)")
  case (Inl e)
  then show ?thesis by (simp add: get_alternative_price_def)
next
  case (Inr d)
  then show ?thesis
    using alternative_of_data_fallback [of d]
    by (cases "alternative_of_data d") (simp_all add: get_alternative_price_def)
qed

lemma get_current_price_request_failure:
  assumes "net w (calls w) (TickerPrice symbol) = Inl e" and "is_RequestException e"
  shows "get_current_price w =
     (Inr (case net w (Suc (calls w)) (Ticker24hr symbol) of
             Inl e' \<Rightarrow> None | Inr d \<Rightarrow> ticker_fallback_price d),
      w\<lparr>calls := Suc (Suc (calls w)),
        sent := sent w @ [TickerPrice symbol, Ticker24hr symbol],
        out := out w @ [ErrorText ''Connection error to Binance'' e]\<rparr>)"
  using assms by (simp add: get_current_price_def get_alternative_price_eq)

lemma get_current_price_returns: "\<exists>p. fst (get_current_price w) = Inr p"
proof (cases "net w (calls w) (TickerPrice symbol)")
  case (Inl e)
  then show ?thesis
    by (cases e) (simp_all add: get_current_price_def get_alternative_price_eq)
next
  case (Inr d)
  show ?thesis
  proof (cases "price_of_data d")
    case (Inl e)
    with Inr show ?thesis
      by (cases e) (simp_all add: get_current_price_def get_alternative_price_eq)
  next
    case (Inr p)
    with \<open>net w (calls w) (TickerPrice symbol) = Inr d\<close> show ?thesis
      by (simp add: get_current_price_def)
  qed
qed

text \<open>
  Claim C3. \<^verbatim>\<open>get_current_price\<close> always returns a value, never an exception. When the
  spot-price request raises a \<^verbatim>\<open>RequestException\<close>, what it returns is derived from the
  next call, the 24h ticker: the last price when present, otherwise the midpoint of bid
  and ask, and \<open>None\<close> when the ticker request raises too or gives no such price.
\<close>

theorem current_price_fallback:
  "(\<exists>p. fst (get_current_price w) = Inr p) \<and>
   (\<forall>e. net w (calls w) (TickerPrice symbol) = Inl e \<and> is_RequestException e \<longrightarrow>
      fst (get_current_price w) =
        Inr (case net w (Suc (calls w)) (Ticker24hr symbol) of
               Inl e' \<Rightarrow> None | Inr d \<Rightarrow> ticker_fallback_price d))"
  using get_current_price_returns [of w]
  by (simp add: get_current_price_request_failure)

lemma fadd_1_2: "fadd (Fin 1) (Fin 2) = Fin 3"
  by (simp add: fadd_def float_eval)

lemma fdiv_3_2: "fdiv (Fin 3) (Fin 2) = Fin (3 / 2)"
  by (simp add: fdiv_def float_eval)

theorem current_price_fallback_witness:
  "fst (get_current_price bid_ask_world) = Inr (Some (Fin (3 / 2))) \<and>
   fst (get_current_price offline) = Inr None"
  using current_price_fallback [of bid_ask_world] current_price_fallback [of offline]
  by (simp add: bid_ask_world_def offline_def ticker_fallback_price_def float_or_none_def
      float_of_str_def float_of_string_1 float_of_string_2 fadd_1_2 fdiv_3_2)

section \<open>The converter\<close>

lemma input_line_Cons [simp]:
  "stdin w = s # ss \<Longrightarrow>
   input_line p w = (Inr s, w\<lparr>stdin := ss, out := out w @ [Prompt p]\<rparr>)"
  by (simp add: input_line_def)

lemma input_line_Nil [simp]:
  "stdin w = [] \<Longrightarrow> input_line p w = (Inl EOFError, w\<lparr>out := out w @ [Prompt p]\<rparr>)"
  by (simp add: input_line_def)

lemma amount_loop_accept:
  assumes "stdin w = s # ss" and "float_of_string s = Some v" and "\<not> fle v (Fin 0)"
  shows "amount_loop w =
     (Inr v, w\<lparr>stdin := ss, out := out w @ [Prompt ''Enter amount of Bitcoin: '']\<rparr>)"
  using assms by (subst amount_loop.simps) simp

lemma amount_loop_not_number:
  assumes "stdin w = s # ss" and "float_of_string s = None"
  shows "amount_loop w = amount_loop (w\<lparr>stdin := ss,
      out := out w @ [Prompt ''Enter amount of Bitcoin: '',
                      Text ''Error: Enter a valid number'']\<rparr>)"
  using assms by (subst amount_loop.simps) simp

lemma amount_loop_not_positive:
  assumes "stdin w = s # ss" and "float_of_string s = Some v" and "fle v (Fin 0)"
  shows "amount_loop w = amount_loop (w\<lparr>stdin := ss,
      out := out w @ [Prompt ''Enter amount of Bitcoin: '',
                      Text ''Error: Amount must be greater than 0'']\<rparr>)"
  using assms by (subst amount_loop.simps) simp

lemma amount_loop_eof:
  assumes "stdin w = []"
  shows "amount_loop w =
     (Inl EOFError, w\<lparr>out := out w @ [Prompt ''Enter amount of Bitcoin: '']\<rparr>)"
  using assms by (subst amount_loop.simps) simp

lemma converter_price_manual:
  assumes "\<not> price_truthy price" and "stdin w = answer # entry # rest"
    and "lower answer \<noteq> ''y''" and "float_of_string entry = Some x"
  shows "converter_price price w =
     (Inr x, w\<lparr>stdin := rest, out := out w @
        [Text ''Could not get current price from Binance.'',
         Text ''Service may be temporarily unavailable.'',
         Prompt ''Use reference price of $50,000? (y/n): '',
         Prompt ''Enter price manually: $'']\<rparr>)"
  using assms by (simp add: converter_price_def float_of_str_def)

lemma converter_price_invalid:
  assumes "\<not> price_truthy price" and "stdin w = answer # entry # rest"
    and "lower answer \<noteq> ''y''" and "float_of_string entry = None"
  shows "converter_price price w =
     (Inr (Fin 50000), w\<lparr>stdin := rest, out := out w @
        [Text ''Could not get current price from Binance.'',
         Text ''Service may be temporarily unavailable.'',
         Prompt ''Use reference price of $50,000? (y/n): '',
         Prompt ''Enter price manually: $'',
         Text ''Invalid price. Using $50,000 as default.'']\<rparr>)"
  using assms by (simp add: converter_price_def float_of_str_def)

lemma converter_price_available:
  assumes "float_truthy p"
  shows "converter_price (Some p) w =
     (Inr p, w\<lparr>out := out w @
        [Labeled ''Current price: 1 BTC'' (format_f False True 2 p),
         Text ''Source: Binance API'']\<rparr>)"
  using assms by (simp add: converter_price_def)

lemma get_current_price_no_network:
  assumes "\<And>n req. net w n req = Inl RequestException"
  shows "get_current_price w =
     (Inr None, w\<lparr>calls := Suc (Suc (calls w)),
        sent := sent w @ [TickerPrice symbol, Ticker24hr symbol],
        out := out w @ [ErrorText ''Connection error to Binance'' RequestException]\<rparr>)"
  using assms by (simp add: get_current_price_request_failure)

text \<open>
  Claim C8. When \<^verbatim>\<open>get_current_price\<close> returns \<open>None\<close>, the converter asks whether to use
  the reference price; after any answer but \<^verbatim>\<open>y\<close> it asks for a price, and a text that
  \<^verbatim>\<open>float\<close> accepts becomes the price of the conversion: with an accepted amount \<open>a\<close> the
  total shown is \<open>a\<close> times that price.
\<close>

theorem manual_price_entry:
  assumes "get_current_price (w\<lparr>out := out w @ converter_banner\<rparr>) = (Inr None, w1)"
    and "stdin w1 = answer # entry # amount # enter # rest"
    and "lower answer \<noteq> ''y''"
    and "float_of_string entry = Some price"
    and "float_of_string amount = Some a" and "\<not> fle a (Fin 0)"
  shows "convert_bitcoin_to_usd w =
     (Inr (), w1\<lparr>stdin := rest, out := out w1 @
        [Text ''Could not get current price from Binance.'',
         Text ''Service may be temporarily unavailable.'',
         Prompt ''Use reference price of $50,000? (y/n): '',
         Prompt ''Enter price manually: $'',
         Prompt ''Enter amount of Bitcoin: '',
         rule 50 (CHR ''=''), Text ''RESULT:'', rule 50 (CHR ''=''),
         Labeled ''Bitcoin amount'' (format_f False False 8 a),
         Labeled ''Current price'' (format_f False True 2 price),
         Labeled ''Total value'' (format_f False True 2 (fmul a price)),
         rule 50 (CHR ''=''),
         Prompt ''Press Enter to continue...'']\<rparr>)"
  using assms
  by (simp add: convert_bitcoin_to_usd_def converter_price_manual amount_loop_accept Let_def)

lemma replicate_numeral: "replicate (numeral v) x = x # replicate (pred_numeral v) x"
  by (simp add: numeral_eq_Suc)

lemma lower_n: "lower ''n'' = ''n''"
  by (simp add: lower_def lower_char_def)

lemma fmul_2_60000: "fmul (Fin 2) (Fin 60000) = Fin 120000"
  by (simp add: fmul_def float_eval)

lemma fmul_2_50000: "fmul (Fin 2) (Fin 50000) = Fin 100000"
  by (simp add: fmul_def float_eval)

lemma format_120000: "format_f False True 2 (Fin 120000) = ''120,000.00''"
  by (simp add: format_eval replicate_numeral)

lemma format_100000: "format_f False True 2 (Fin 100000) = ''100,000.00''"
  by (simp add: format_eval replicate_numeral)

lemma format_60000: "format_f False True 2 (Fin 60000) = ''60,000.00''"
  by (simp add: format_eval replicate_numeral)

lemma format_50000: "format_f False True 2 (Fin 50000) = ''50,000.00''"
  by (simp add: format_eval replicate_numeral)

lemma format_amount_2: "format_f False False 8 (Fin 2) = ''2.00000000''"
  by (simp add: format_eval replicate_numeral)

lemma get_current_price_manual_world:
  "get_current_price (offline\<lparr>stdin := ss, out := converter_banner\<rparr>) =
     (Inr None, offline\<lparr>stdin := ss, calls := 2,
        sent := [TickerPrice symbol, Ticker24hr symbol],
        out := converter_banner @
          [ErrorText ''Connection error to Binance'' RequestException]\<rparr>)"
  by (subst get_current_price_no_network) (simp_all add: offline_def)

theorem manual_price_entry_witness:
  "out (snd (convert_bitcoin_to_usd manual_world)) =
     converter_banner @
     [ErrorText ''Connection error to Binance'' RequestException,
      Text ''Could not get current price from Binance.'',
      Text ''Service may be temporarily unavailable.'',
      Prompt ''Use reference price of $50,000? (y/n): '',
      Prompt ''Enter price manually: $'',
      Prompt ''Enter amount of Bitcoin: '',
      rule 50 (CHR ''=''), Text ''RESULT:'', rule 50 (CHR ''=''),
      Labeled ''Bitcoin amount'' ''2.00000000'',
      Labeled ''Current price'' ''60,000.00'',
      Labeled ''Total value'' ''120,000.00'',
      rule 50 (CHR ''=''),
      Prompt ''Press Enter to continue...'']"
proof -
  have "get_current_price (manual_world\<lparr>out := out manual_world @ converter_banner\<rparr>) =
     (Inr None, offline\<lparr>stdin := [''n'', ''60000'', ''2'', ''''], calls := 2,
        sent := [TickerPrice symbol, Ticker24hr symbol],
        out := converter_banner @
          [ErrorText ''Connection error to Binance'' RequestException]\<rparr>)"
    using get_current_price_manual_world [of "[''n'', ''60000'', ''2'', '''']"]
    by (simp add: manual_world_def offline_def)
  from manual_price_entry
    [OF this, of "''n''" "''60000''" "''2''" "''''" "[]" "Fin 60000" "Fin 2"]
  show ?thesis
    by (simp add: lower_n float_of_string_60000 float_of_string_2 fle_def
        fmul_2_60000 format_120000 format_60000 format_amount_2)
qed

text \<open>
  Claim C10, as amended. When the current price is unavailable, the user declines the
  reference price and the price typed is no float, the price is asked for once only: the
  converter prints the notice that the price is invalid and that $50,000 is used, takes
  50000.0 as the price and goes on to the amount.
\<close>

theorem invalid_manual_price_default:
  assumes "get_current_price (w\<lparr>out := out w @ converter_banner\<rparr>) = (Inr None, w1)"
    and "stdin w1 = answer # entry # amount # enter # rest"
    and "lower answer \<noteq> ''y''"
    and "float_of_string entry = None"
    and "float_of_string amount = Some a" and "\<not> fle a (Fin 0)"
  shows "convert_bitcoin_to_usd w =
     (Inr (), w1\<lparr>stdin := rest, out := out w1 @
        [Text ''Could not get current price from Binance.'',
         Text ''Service may be temporarily unavailable.'',
         Prompt ''Use reference price of $50,000? (y/n): '',
         Prompt ''Enter price manually: $'',
         Text ''Invalid price. Using $50,000 as default.'',
         Prompt ''Enter amount of Bitcoin: '',
         rule 50 (CHR ''=''), Text ''RESULT:'', rule 50 (CHR ''=''),
         Labeled ''Bitcoin amount'' (format_f False False 8 a),
         Labeled ''Current price'' (format_f False True 2 (Fin 50000)),
         Labeled ''Total value'' (format_f False True 2 (fmul a (Fin 50000))),
         rule 50 (CHR ''=''),
         Prompt ''Press Enter to continue...'']\<rparr>)"
  using assms
  by (simp add: convert_bitcoin_to_usd_def converter_price_invalid amount_loop_accept Let_def)

theorem invalid_manual_price_default_witness:
  "float_of_string ''abc'' = None \<and>
   out (snd (convert_bitcoin_to_usd invalid_world)) =
     converter_banner @
     [ErrorText ''Connection error to Binance'' RequestException,
      Text ''Could not get current price from Binance.'',
      Text ''Service may be temporarily unavailable.'',
      Prompt ''Use reference price of $50,000? (y/n): '',
      Prompt ''Enter price manually: $'',
      Text ''Invalid price. Using $50,000 as default.'',
      Prompt ''Enter amount of Bitcoin: '',
      rule 50 (CHR ''=''), Text ''RESULT:'', rule 50 (CHR ''=''),
      Labeled ''Bitcoin amount'' ''2.00000000'',
      Labeled ''Current price'' ''50,000.00'',
      Labeled ''Total value'' ''100,000.00'',
      rule 50 (CHR ''=''),
      Prompt ''Press Enter to continue...'']"
proof -
  have "get_current_price (invalid_world\<lparr>out := out invalid_world @ converter_banner\<rparr>) =
     (Inr None, offline\<lparr>stdin := [''n'', ''abc'', ''2'', ''''], calls := 2,
        sent := [TickerPrice symbol, Ticker24hr symbol],
        out := converter_banner @
          [ErrorText ''Connection error to Binance'' RequestException]\<rparr>)"
    using get_current_price_manual_world [of "[''n'', ''abc'', ''2'', '''']"]
    by (simp add: invalid_world_def offline_def)
  from invalid_manual_price_default
    [OF this, of "''n''" "''abc''" "''2''" "''''" "[]" "Fin 2"]
  show ?thesis
    by (simp add: lower_n float_of_string_abc float_of_string_2 fle_def
        fmul_2_50000 format_100000 format_50000 format_amount_2)
qed

text \<open>
  Claim C10 as stated says the substitution is silent. It is not: in the world where the
  user types \<^verbatim>\<open>n\<close> and then \<^verbatim>\<open>abc\<close> as the price, the converter prints its notice.
\<close>

theorem invalid_manual_price_announced:
  "Text ''Invalid price. Using $50,000 as default.''
     \<in> set (out (snd (convert_bitcoin_to_usd invalid_world)))"
proof -
  have "get_current_price (invalid_world\<lparr>out := out invalid_world @ converter_banner\<rparr>) =
     (Inr None, offline\<lparr>stdin := [''n'', ''abc'', ''2'', ''''], calls := 2,
        sent := [TickerPrice symbol, Ticker24hr symbol],
        out := converter_banner @
          [ErrorText ''Connection error to Binance'' RequestException]\<rparr>)"
    using get_current_price_manual_world [of "[''n'', ''abc'', ''2'', '''']"]
    by (simp add: invalid_world_def offline_def)
  then show ?thesis
    by (simp add: convert_bitcoin_to_usd_def converter_price_invalid amount_loop_accept Let_def
        lower_n float_of_string_abc float_of_string_2 fle_def)
qed

lemma get_current_price_ok:
  assumes "net w (calls w) (TickerPrice symbol) = Inr d" and "price_of_data d = Inr p"
  shows "get_current_price w =
     (Inr p, w\<lparr>calls := Suc (calls w), sent := sent w @ [TickerPrice symbol]\<rparr>)"
  using assms by (simp add: get_current_price_def)

text \<open>The converter from the point where its price is known.\<close>

lemma convert_with_price:
  assumes "get_current_price (w\<lparr>out := out w @ converter_banner\<rparr>) = (Inr price, w1)"
    and "converter_price price w1 = (Inr p, w2)"
    and "stdin w2 = amount # enter # rest"
    and "float_of_string amount = Some a" and "\<not> fle a (Fin 0)"
  shows "convert_bitcoin_to_usd w =
     (Inr (), w2\<lparr>stdin := rest, out := out w2 @
        [Prompt ''Enter amount of Bitcoin: '',
         rule 50 (CHR ''=''), Text ''RESULT:'', rule 50 (CHR ''=''),
         Labeled ''Bitcoin amount'' (format_f False False 8 a),
         Labeled ''Current price'' (format_f False True 2 p),
         Labeled ''Total value'' (format_f False True 2 (fmul a p)),
         rule 50 (CHR ''=''),
         Prompt ''Press Enter to continue...'']\<rparr>)"
  using assms
  by (simp add: convert_bitcoin_to_usd_def amount_loop_accept Let_def)

lemma convert_with_current_price:
  assumes "get_current_price (w\<lparr>out := out w @ converter_banner\<rparr>) = (Inr (Some p), w1)"
    and "float_truthy p"
    and "stdin w1 = amount # enter # rest"
    and "float_of_string amount = Some a" and "\<not> fle a (Fin 0)"
  shows "convert_bitcoin_to_usd w =
     (Inr (), w1\<lparr>stdin := rest, out := out w1 @
        [Labeled ''Current price: 1 BTC'' (format_f False True 2 p),
         Text ''Source: Binance API'',
         Prompt ''Enter amount of Bitcoin: '',
         rule 50 (CHR ''=''), Text ''RESULT:'', rule 50 (CHR ''=''),
         Labeled ''Bitcoin amount'' (format_f False False 8 a),
         Labeled ''Current price'' (format_f False True 2 p),
         Labeled ''Total value'' (format_f False True 2 (fmul a p)),
         rule 50 (CHR ''=''),
         Prompt ''Press Enter to continue...'']\<rparr>)"
  using assms
  by (simp add: convert_bitcoin_to_usd_def converter_price_available amount_loop_accept Let_def)

subsection \<open>The example of the spec\<close>

lemma float_of_string_price:
  "float_of_string ''65000.12345678'' = Some (Fin (4466774471725321 / 68719476736))"
  by (simp add: parse_eval float_eval)

lemma float_of_string_half: "float_of_string ''0.5'' = Some (Fin (1 / 2))"
  by (simp add: parse_eval float_eval)

lemma fmul_half_price:
  "fmul (Fin (1 / 2)) (Fin (4466774471725321 / 68719476736)) =
     Fin (4466774471725321 / 137438953472)"
  by (simp add: fmul_def float_eval)

lemma format_price:
  "format_f False True 2 (Fin (4466774471725321 / 68719476736)) = ''65,000.12''"
  by (simp add: format_eval replicate_numeral)

lemma format_total:
  "format_f False True 2 (Fin (4466774471725321 / 137438953472)) = ''32,500.06''"
  by (simp add: format_eval replicate_numeral)

lemma format_half: "format_f False False 8 (Fin (1 / 2)) = ''0.50000000''"
  by (simp add: format_eval replicate_numeral)

lemma price_of_example:
  "price_of_data (JDict [(''symbol'', JStr ''BTCUSDT''), (''price'', JStr ''65000.12345678'')]) =
     Inr (Some (Fin (4466774471725321 / 68719476736)))"
  by (simp add: price_of_data_def float_of_str_def float_of_string_price)

lemma get_current_price_example:
  "get_current_price (example_world\<lparr>stdin := ss, out := ls\<rparr>) =
     (Inr (Some (Fin (4466774471725321 / 68719476736))),
      example_world\<lparr>stdin := ss, out := ls, calls := 1, sent := [TickerPrice symbol]\<rparr>)"
  by (subst get_current_price_ok [OF _ price_of_example])
     (simp_all add: example_world_def offline_def)

lemma float_of_string_1000: "float_of_string ''1000'' = Some (Fin 1000)"
  by (simp add: parse_eval float_eval)

lemma fmul_1000_price:
  "fmul (Fin 1000) (Fin (4466774471725321 / 68719476736)) =
     Fin (4362084445044259 / 67108864)"
  by (simp add: fmul_def float_eval)

lemma format_total_1000:
  "format_f False True 2 (Fin (4362084445044259 / 67108864)) = ''65,000,123.46''"
  by (simp add: format_eval replicate_numeral)

lemma format_1000: "format_f False False 8 (Fin 1000) = ''1000.00000000''"
  by (simp add: format_eval replicate_numeral)

text \<open>
  Claim C7. When the current price is the float of \<^verbatim>\<open>65000.12345678\<close>, the converter shows
  the price rounded to cents, \<^verbatim>\<open>65,000.12\<close>, but multiplies with the unrounded double: for
  every accepted amount \<open>a\<close> the total it prints is the format to cents of the product of
  \<open>a\<close> and that double. For the amount \<^verbatim>\<open>0.5\<close> the product is exact, half the price, which
  is not a number of cents, and the total printed is \<^verbatim>\<open>32,500.06\<close>.
\<close>

theorem conversion_example:
  assumes "get_current_price (w\<lparr>out := out w @ converter_banner\<rparr>) =
             (Inr (float_of_string ''65000.12345678''), w1)"
    and "stdin w1 = amount # enter # rest"
    and "float_of_string amount = Some a" and "\<not> fle a (Fin 0)"
  shows "convert_bitcoin_to_usd w =
     (Inr (), w1\<lparr>stdin := rest, out := out w1 @
        [Labeled ''Current price: 1 BTC'' ''65,000.12'',
         Text ''Source: Binance API'',
         Prompt ''Enter amount of Bitcoin: '',
         rule 50 (CHR ''=''), Text ''RESULT:'', rule 50 (CHR ''=''),
         Labeled ''Bitcoin amount'' (format_f False False 8 a),
         Labeled ''Current price'' ''65,000.12'',
         Labeled ''Total value''
           (format_f False True 2 (fmul a (Fin (4466774471725321 / 68719476736)))),
         rule 50 (CHR ''=''),
         Prompt ''Press Enter to continue...'']\<rparr>)
   \<and> float_of_string ''65000.12345678'' = Some (Fin (4466774471725321 / 68719476736))
   \<and> \<bar>4466774471725321 / 68719476736 - 65000.12345678\<bar> < (1 / 10 ^ 11 :: real)
   \<and> (amount = ''0.5'' \<longrightarrow>
         a = Fin (1 / 2)
       \<and> format_f False False 8 a = ''0.50000000''
       \<and> fmul a (Fin (4466774471725321 / 68719476736)) =
           Fin (1 / 2 * (4466774471725321 / 68719476736))
       \<and> (1 / 2 * (4466774471725321 / 68719476736) :: real) \<noteq> 32500.06
       \<and> format_f False True 2 (fmul a (Fin (4466774471725321 / 68719476736))) =
           ''32,500.06'')"
proof -
  from assms(1)
  have "get_current_price (w\<lparr>out := out w @ converter_banner\<rparr>) =
          (Inr (Some (Fin (4466774471725321 / 68719476736))), w1)"
    by (simp add: float_of_string_price)
  from convert_with_current_price [OF this _ assms(2,3,4)]
  have run: "convert_bitcoin_to_usd w =
     (Inr (), w1\<lparr>stdin := rest, out := out w1 @
        [Labeled ''Current price: 1 BTC'' ''65,000.12'',
         Text ''Source: Binance API'',
         Prompt ''Enter amount of Bitcoin: '',
         rule 50 (CHR ''=''), Text ''RESULT:'', rule 50 (CHR ''=''),
         Labeled ''Bitcoin amount'' (format_f False False 8 a),
         Labeled ''Current price'' ''65,000.12'',
         Labeled ''Total value''
           (format_f False True 2 (fmul a (Fin (4466774471725321 / 68719476736)))),
         rule 50 (CHR ''=''),
         Prompt ''Press Enter to continue...'']\<rparr>)"
    by (simp add: float_truthy_def format_price)
  have half: "a = Fin (1 / 2)" if "amount = ''0.5''"
    using that assms(3) by (simp add: float_of_string_half)
  from run half show ?thesis
    by (auto simp add: float_of_string_price fmul_half_price format_total format_half)
qed

theorem conversion_example_witness:
  "out (snd (convert_bitcoin_to_usd example_world)) =
     converter_banner @
     [Labeled ''Current price: 1 BTC'' ''65,000.12'',
      Text ''Source: Binance API'',
      Prompt ''Enter amount of Bitcoin: '',
      rule 50 (CHR ''=''), Text ''RESULT:'', rule 50 (CHR ''=''),
      Labeled ''Bitcoin amount'' ''0.50000000'',
      Labeled ''Current price'' ''65,000.12'',
      Labeled ''Total value'' ''32,500.06'',
      rule 50 (CHR ''=''),
      Prompt ''Press Enter to continue...'']
   \<and> out (snd (convert_bitcoin_to_usd thousand_world)) =
     converter_banner @
     [Labeled ''Current price: 1 BTC'' ''65,000.12'',
      Text ''Source: Binance API'',
      Prompt ''Enter amount of Bitcoin: '',
      rule 50 (CHR ''=''), Text ''RESULT:'', rule 50 (CHR ''=''),
      Labeled ''Bitcoin amount'' ''1000.00000000'',
      Labeled ''Current price'' ''65,000.12'',
      Labeled ''Total value'' ''65,000,123.46'',
      rule 50 (CHR ''=''),
      Prompt ''Press Enter to continue...'']"
proof -
  have "get_current_price (example_world\<lparr>out := out example_world @ converter_banner\<rparr>) =
     (Inr (float_of_string ''65000.12345678''),
      example_world\<lparr>stdin := [''0.5'', ''''], out := converter_banner, calls := 1,
        sent := [TickerPrice symbol]\<rparr>)"
    using get_current_price_example [where ss = "[''0.5'', '''']" and ls = converter_banner]
    by (simp add: example_world_def offline_def float_of_string_price)
  from conversion_example [OF this, of "''0.5''" "''''" "[]" "Fin (1 / 2)"]
  have first: "out (snd (convert_bitcoin_to_usd example_world)) =
     converter_banner @
     [Labeled ''Current price: 1 BTC'' ''65,000.12'',
      Text ''Source: Binance API'',
      Prompt ''Enter amount of Bitcoin: '',
      rule 50 (CHR ''=''), Text ''RESULT:'', rule 50 (CHR ''=''),
      Labeled ''Bitcoin amount'' ''0.50000000'',
      Labeled ''Current price'' ''65,000.12'',
      Labeled ''Total value'' ''32,500.06'',
      rule 50 (CHR ''=''),
      Prompt ''Press Enter to continue...'']"
    by (simp add: float_of_string_half fle_def fmul_half_price format_total format_half)
  have "get_current_price (thousand_world\<lparr>out := out thousand_world @ converter_banner\<rparr>) =
     (Inr (float_of_string ''65000.12345678''),
      example_world\<lparr>stdin := [''1000'', ''''], out := converter_banner, calls := 1,
        sent := [TickerPrice symbol]\<rparr>)"
    using get_current_price_example [where ss = "[''1000'', '''']" and ls = converter_banner]
    by (simp add: thousand_world_def example_world_def offline_def float_of_string_price)
  from conversion_example [OF this, of "''1000''" "''''" "[]" "Fin 1000"]
  have "out (snd (convert_bitcoin_to_usd thousand_world)) =
     converter_banner @
     [Labeled ''Current price: 1 BTC'' ''65,000.12'',
      Text ''Source: Binance API'',
      Prompt ''Enter amount of Bitcoin: '',
      rule 50 (CHR ''=''), Text ''RESULT:'', rule 50 (CHR ''=''),
      Labeled ''Bitcoin amount'' ''1000.00000000'',
      Labeled ''Current price'' ''65,000.12'',
      Labeled ''Total value'' ''65,000,123.46'',
      rule 50 (CHR ''=''),
      Prompt ''Press Enter to continue...'']"
    by (simp add: float_of_string_1000 fle_def fmul_1000_price format_total_1000 format_1000)
  with first show ?thesis by simp
qed

subsection \<open>Amounts that are no positive numbers\<close>

lemma format_nan: "format_f False comma prec NaN = ''nan''"
  by (simp add: format_f_def)

lemma fmul_NaN: "fmul NaN p = NaN"
  by (simp add: fmul_def)

lemma fmul_PInf: "fmul PInf p \<in> {PInf, NInf, NaN}"
  by (simp add: fmul_def inf_of_def)

text \<open>
  Claim C9. The amount loop accepts at once any text whose float \<open>v\<close> does not satisfy
  \<open>v \<le> 0\<close>. The texts \<^verbatim>\<open>nan\<close> and \<^verbatim>\<open>inf\<close> are such: NaN compares false with everything.
  Whatever the price \<open>p\<close> the converter has settled on, the total it then shows is the
  formatted product of \<open>v\<close> and \<open>p\<close>, which is NaN for NaN and NaN or an infinity for
  infinity.
\<close>

theorem amount_validation_admits_nan_inf:
  "(\<forall>w s ss v. stdin w = s # ss \<and> float_of_string s = Some v \<and> \<not> fle v (Fin 0) \<longrightarrow>
      amount_loop w =
        (Inr v, w\<lparr>stdin := ss, out := out w @ [Prompt ''Enter amount of Bitcoin: '']\<rparr>))
   \<and> float_of_string ''nan'' = Some NaN \<and> \<not> fle NaN (Fin 0)
   \<and> float_of_string ''inf'' = Some PInf \<and> \<not> fle PInf (Fin 0)
   \<and> (\<forall>w price w1 p w2 amount enter rest v.
        get_current_price (w\<lparr>out := out w @ converter_banner\<rparr>) = (Inr price, w1) \<and>
        converter_price price w1 = (Inr p, w2) \<and>
        stdin w2 = amount # enter # rest \<and>
        float_of_string amount = Some v \<and> \<not> fle v (Fin 0) \<longrightarrow>
        convert_bitcoin_to_usd w =
          (Inr (), w2\<lparr>stdin := rest, out := out w2 @
             [Prompt ''Enter amount of Bitcoin: '',
              rule 50 (CHR ''=''), Text ''RESULT:'', rule 50 (CHR ''=''),
              Labeled ''Bitcoin amount'' (format_f False False 8 v),
              Labeled ''Current price'' (format_f False True 2 p),
              Labeled ''Total value'' (format_f False True 2 (fmul v p)),
              rule 50 (CHR ''=''),
              Prompt ''Press Enter to continue...'']\<rparr>))
   \<and> (\<forall>p. fmul NaN p = NaN)
   \<and> (\<forall>p. fmul PInf p \<in> {PInf, NInf, NaN})"
  using fmul_PInf
  by (simp add: amount_loop_accept float_of_string_nan float_of_string_inf fle_def
      convert_with_price fmul_NaN)

theorem amount_validation_admits_nan_inf_witness:
  "out (snd (convert_bitcoin_to_usd nan_world)) =
     converter_banner @
     [Labeled ''Current price: 1 BTC'' ''65,000.12'',
      Text ''Source: Binance API'',
      Prompt ''Enter amount of Bitcoin: '',
      rule 50 (CHR ''=''), Text ''RESULT:'', rule 50 (CHR ''=''),
      Labeled ''Bitcoin amount'' ''nan'',
      Labeled ''Current price'' ''65,000.12'',
      Labeled ''Total value'' ''nan'',
      rule 50 (CHR ''=''),
      Prompt ''Press Enter to continue...'']"
proof -
  let ?p = "Fin (4466774471725321 / 68719476736)"
  let ?w1 = "example_world\<lparr>stdin := [''nan'', ''''], out := converter_banner, calls := 1,
        sent := [TickerPrice symbol]\<rparr>"
  let ?w2 = "?w1\<lparr>out := out ?w1 @
        [Labeled ''Current price: 1 BTC'' (format_f False True 2 ?p),
         Text ''Source: Binance API'']\<rparr>"
  have price: "get_current_price (nan_world\<lparr>out := out nan_world @ converter_banner\<rparr>) =
     (Inr (Some ?p), ?w1)"
    using get_current_price_example [where ss = "[''nan'', '''']" and ls = converter_banner]
    by (simp add: nan_world_def example_world_def offline_def)
  have chosen: "converter_price (Some ?p) ?w1 = (Inr ?p, ?w2)"
    by (simp add: converter_price_available float_truthy_def)
  have typed: "stdin ?w2 = ''nan'' # '''' # []"
    by simp
  from amount_validation_admits_nan_inf
  have "get_current_price (nan_world\<lparr>out := out nan_world @ converter_banner\<rparr>) =
          (Inr (Some ?p), ?w1) \<and>
        converter_price (Some ?p) ?w1 = (Inr ?p, ?w2) \<and>
        stdin ?w2 = ''nan'' # '''' # [] \<and>
        float_of_string ''nan'' = Some NaN \<and> \<not> fle NaN (Fin 0) \<longrightarrow>
        convert_bitcoin_to_usd nan_world =
          (Inr (), ?w2\<lparr>stdin := [], out := out ?w2 @
             [Prompt ''Enter amount of Bitcoin: '',
              rule 50 (CHR ''=''), Text ''RESULT:'', rule 50 (CHR ''=''),
              Labeled ''Bitcoin amount'' (format_f False False 8 NaN),
              Labeled ''Current price'' (format_f False True 2 ?p),
              Labeled ''Total value'' (format_f False True 2 (fmul NaN ?p)),
              rule 50 (CHR ''=''),
              Prompt ''Press Enter to continue...'']\<rparr>)"
    by blast
  with price chosen typed show ?thesis
    by (simp add: float_of_string_nan fle_def fmul_NaN format_nan format_price)
qed

text \<open>
  Claim C2 fails on the text \<^verbatim>\<open>nan\<close>: it is a float, the test \<^verbatim>\<open>amount_btc <= 0\<close> is false
  for it, and the loop ends with NaN as the amount, which is not greater than 0.
\<close>

theorem nan_amount_accepted:
  assumes "stdin w = ''nan'' # ss"
  shows "amount_loop w =
           (Inr NaN, w\<lparr>stdin := ss, out := out w @ [Prompt ''Enter amount of Bitcoin: '']\<rparr>)
         \<and> \<not> flt (Fin 0) NaN"
  using assms by (simp add: amount_loop_accept float_of_string_nan fle_def)

theorem nan_amount_accepted_witness:
  "fst (amount_loop nan_world) = Inr NaN"
  using nan_amount_accepted [of nan_world "['''']"]
  by (simp add: nan_world_def)

section \<open>Rounding to a double is monotone\<close>






















section \<open>The height of a chart bar\<close>
















section \<open>The historical query: results\<close>






lemma float_or_none_1: "float_or_none (JStr ''1'') = Some (Fin 1)"
  by (simp add: float_or_none_def float_of_str_def float_of_string_1)




section \<open>The 24-hour analysis: what is printed\<close>




















subsection \<open>The chart\<close>

lemma flt_NaN_right [simp]: "flt a NaN = False"
  by (cases a) simp_all


lemma fold_max_NaN: "fold (\<lambda>y m. if flt m y then y else m) xs NaN = NaN"
  by (induction xs) simp_all








subsection \<open>The detailed block and the whole analysis\<close>








subsection \<open>The lines of the detailed block\<close>






subsection \<open>Runs on the concrete worlds\<close>



































section \<open>The 24-hour analysis: the bars of the chart\<close>




section \<open>The 24-hour analysis: the change displayed\<close>




end
